theory Spec2Isabelle
  imports Main "HOL-Library.AList"
begin

section \<open>Values shared by the services\<close>

text \<open>
  JavaScript errors are objects carrying a message. Console output is kept as a list of
  entries holding the constant part of the printed line (interpolated account ids and
  subjects are left out) and, for \<open>console.error\<close>, the error value printed with it.
\<close>

datatype error = Error string

datatype log_entry =
    ConsoleLog string
  | ConsoleWarn string
  | ConsoleError string "error option"

text \<open>
  \<open>x || d\<close> on an optional string: \<open>undefined\<close> and the empty string are both falsy.
\<close>

definition truthy :: "string option \<Rightarrow> bool" where
  "truthy x = (case x of None \<Rightarrow> False | Some s \<Rightarrow> s \<noteq> [])"

definition or_else :: "string option \<Rightarrow> string \<Rightarrow> string" where
  "or_else x d = (case x of None \<Rightarrow> d | Some s \<Rightarrow> if s = [] then d else s)"

text \<open>\<open>Array.prototype.join\<close> on an array of strings.\<close>

fun join :: "string \<Rightarrow> string list \<Rightarrow> string" where
  "join sep [] = []"
| "join sep [x] = x"
| "join sep (x # y # ys) = x @ sep @ join sep (y # ys)"

section \<open>Decoded messages and stored documents\<close>

text \<open>
  \<open>ParsedMail\<close> (mailparser): only the fields \<open>indexEmail\<close> reads. An address field is
  absent, one address object or an array of them; each object is represented by its
  \<open>text\<close>. \<open>html\<close> is a string or \<open>false\<close> (here \<open>None\<close>). Dates are time values in
  milliseconds since the epoch.
\<close>

datatype address_field = NoAddress | OneAddress string | ManyAddresses "string list"

record ParsedMail =
  mail_messageId :: "string option"
  mail_from :: "string option"
  mail_to :: address_field
  mail_subject :: "string option"
  mail_text :: "string option"
  mail_html :: "string option"
  mail_date :: "int option"

text \<open>\<open>interface EmailDocument\<close> of elasticsearch.service.ts.\<close>

record EmailDocument =
  accountId :: string
  messageId :: "string option"
  from_text :: "string option"
  to_text :: "string option"
  subject :: "string option"
  body :: "string option"
  htmlBody :: "string option"
  receivedAt :: int
  aiCategory :: "string option"

section \<open>ai.service.ts\<close>

text \<open>
  The AI collaborator is a remote function: the request body in, and either a rejected
  promise (timeout, network failure, HTTP error) or response data whose \<open>category\<close>
  may be missing.
\<close>

record ai_request =
  req_subject :: string
  req_body :: string

datatype ai_reply = AiRejects error | AiData "string option"

definition fallbackCategory :: string where
  "fallbackCategory = ''General''"

definition categorizeEmail ::
  "(ai_request \<Rightarrow> ai_reply) \<Rightarrow> string \<Rightarrow> string \<Rightarrow> string \<times> log_entry list" where
  "categorizeEmail post subj bdy =
     (let safeSubject = or_else (Some subj) ''No Subject'';
          safeBody = or_else (Some bdy) ''''
      in case post \<lparr>req_subject = safeSubject, req_body = safeBody\<rparr> of
           AiData c \<Rightarrow> (or_else c fallbackCategory, [])
         | AiRejects (Error msg) \<Rightarrow>
             (fallbackCategory,
              [ConsoleError ''[AI Service] Categorization failed:'' (Some (Error msg))]))"

section \<open>notification.service.ts\<close>

text \<open>
  The service holds a Slack webhook when \<open>SLACK_WEBHOOK_URL\<close> is truthy, and the value of
  \<open>WEBHOOK_SITE_URL\<close> as it is. A notification attempt is one call of a sink; the sink
  answers by delivering or by rejecting.
\<close>

record NotificationService =
  slackWebhook :: "string option"
  webhookSiteUrl :: "string option"

definition NotificationService_new ::
  "string option \<Rightarrow> string option \<Rightarrow> NotificationService \<times> log_entry list" where
  "NotificationService_new slackUrl siteUrl =
     (\<lparr>slackWebhook = (if truthy slackUrl then slackUrl else None),
       webhookSiteUrl = siteUrl\<rparr>,
      (if truthy slackUrl then []
       else [ConsoleWarn ''[Slack] SLACK_WEBHOOK_URL not set. Slack notifications disabled.''])
      @ (if truthy siteUrl then []
         else [ConsoleWarn ''[Webhook] WEBHOOK_SITE_URL not set. External webhooks disabled.'']))"

datatype notification =
    SlackSend string string
  | WebhookPost string EmailDocument

datatype send_result = Delivered | SendFails error

section \<open>elasticsearch.service.ts\<close>

text \<open>
  The store collaborator, as the index request uses it: a request with an id writes the
  document under that id, replacing what was there; a request without an id is stored
  under a key the store generates. The store may also reject a request.
\<close>

datatype doc_key = Key string | AutoKey nat

record store =
  docs :: "(doc_key \<times> EmailDocument) list"
  next_auto :: nat

datatype es_reply = Indexed | EsRejects error

definition client_index :: "string option \<Rightarrow> EmailDocument \<Rightarrow> store \<Rightarrow> store" where
  "client_index ident d s =
     (case ident of
        Some k \<Rightarrow> s\<lparr>docs := AList.update (Key k) d (docs s)\<rparr>
      | None \<Rightarrow> s\<lparr>docs := docs s @ [(AutoKey (next_auto s), d)],
                  next_auto := Suc (next_auto s)\<rparr>)"

definition lookup :: "store \<Rightarrow> doc_key \<Rightarrow> EmailDocument option" where
  "lookup s k = map_of (docs s) k"

text \<open>
  What the sink can observe and change: the store, the notification attempts made so
  far, and the console.
\<close>

record sink =
  stored :: store
  sent :: "notification list"
  logged :: "log_entry list"

text \<open>The environment of one \<open>indexEmail\<close> call.\<close>

record sink_env =
  ai_post :: "ai_request \<Rightarrow> ai_reply"
  es_index :: "EmailDocument \<Rightarrow> es_reply"
  notify :: "notification \<Rightarrow> send_result"
  now :: int

definition say :: "log_entry list \<Rightarrow> sink \<Rightarrow> sink" where
  "say ls w = w\<lparr>logged := logged w @ ls\<rparr>"

definition attempt :: "(notification \<Rightarrow> send_result) \<Rightarrow> notification \<Rightarrow> string \<Rightarrow> string \<Rightarrow> sink \<Rightarrow> sink" where
  "attempt sink_call n ok_line err_line w =
     (let w1 = w\<lparr>sent := sent w @ [n]\<rparr>
      in case sink_call n of
           Delivered \<Rightarrow> say [ConsoleLog ok_line] w1
         | SendFails e \<Rightarrow> say [ConsoleError err_line (Some e)] w1)"

definition sendInterestNotification ::
  "NotificationService \<Rightarrow> (notification \<Rightarrow> send_result) \<Rightarrow> EmailDocument \<Rightarrow> sink \<Rightarrow> sink" where
  "sendInterestNotification ns sink_call email w =
     (if aiCategory email \<noteq> Some ''Interested'' then w
      else
        let w1 = say [ConsoleLog ''[Notification] 'Interested' email detected''] w;
            w2 = (case slackWebhook ns of
                    None \<Rightarrow> w1
                  | Some _ \<Rightarrow>
                      attempt sink_call
                        (SlackSend (or_else (from_text email) ''Unknown'')
                                   (or_else (subject email) ''No Subject''))
                        ''[Slack] Notification sent.''
                        ''[Slack] Error sending notification:'' w1)
        in if truthy (webhookSiteUrl ns)
           then attempt sink_call (WebhookPost (the (webhookSiteUrl ns)) email)
                  ''[Webhook] Webhook.site triggered.''
                  ''[Webhook] Error triggering webhook.site:'' w2
           else w2)"

definition toText :: "address_field \<Rightarrow> string option" where
  "toText a = (case a of
                 ManyAddresses ts \<Rightarrow> Some (join '', '' ts)
               | OneAddress t \<Rightarrow> Some t
               | NoAddress \<Rightarrow> None)"

text \<open>The object literal of step 2 of \<open>indexEmail\<close>.\<close>

definition document :: "ParsedMail \<Rightarrow> string \<Rightarrow> string \<Rightarrow> int \<Rightarrow> EmailDocument" where
  "document email acct category t =
     \<lparr>accountId = acct,
      messageId = mail_messageId email,
      from_text = mail_from email,
      to_text = toText (mail_to email),
      subject = mail_subject email,
      body = mail_text email,
      htmlBody = (if truthy (mail_html email) then mail_html email else None),
      receivedAt = (case mail_date email of Some d \<Rightarrow> d | None \<Rightarrow> t),
      aiCategory = Some category\<rparr>"

text \<open>
  Steps 1 and 2 of \<open>indexEmail\<close>: the category is requested and the document is
  built. Nothing here can throw: \<open>categorizeEmail\<close> catches its own failure.
\<close>

definition prepare :: "sink_env \<Rightarrow> ParsedMail \<Rightarrow> string \<Rightarrow> EmailDocument \<times> log_entry list" where
  "prepare env email acct =
     (let emailBody = or_else (mail_text email) '''';
          emailSubject = or_else (mail_subject email) ''No Subject'';
          (category, ls) = categorizeEmail (ai_post env) emailSubject emailBody
      in (document email acct category (now env), ls))"

text \<open>
  The body of the \<open>try\<close> block: it ends normally or throws, and leaves the sink as it was
  at that point.
\<close>

definition indexEmail_try ::
  "sink_env \<Rightarrow> NotificationService \<Rightarrow> ParsedMail \<Rightarrow> string \<Rightarrow> sink \<Rightarrow> sink \<times> (error + unit)" where
  "indexEmail_try env ns email acct w =
     (let (d, ls) = prepare env email acct;
          w1 = say ls w
      in case es_index env d of
           EsRejects e \<Rightarrow> (w1, Inl e)
         | Indexed \<Rightarrow>
             let w2 = w1\<lparr>stored := client_index (messageId d) d (stored w1)\<rparr>;
                 w3 = say [ConsoleLog ''[Elasticsearch] Indexed email''] w2
             in (sendInterestNotification ns (notify env) d w3, Inr ()))"

datatype promise = Fulfilled | Rejected error

definition indexEmail ::
  "sink_env \<Rightarrow> NotificationService \<Rightarrow> ParsedMail \<Rightarrow> string \<Rightarrow> sink \<Rightarrow> sink \<times> promise" where
  "indexEmail env ns email acct w =
     (case indexEmail_try env ns email acct w of
        (w', Inr _) \<Rightarrow> (w', Fulfilled)
      | (w', Inl e) \<Rightarrow>
          (say [ConsoleError ''[Elasticsearch] Error indexing email:'' (Some e)] w', Fulfilled))"

text \<open>
  \<open>processEmail\<close> of the IMAP service: the handoff. It logs, starts \<open>indexEmail\<close> and
  attaches a \<open>catch\<close> handler to the promise; nothing is returned to the caller.
\<close>

definition processEmail ::
  "sink_env \<Rightarrow> NotificationService \<Rightarrow> ParsedMail \<Rightarrow> string \<Rightarrow> sink \<Rightarrow> sink" where
  "processEmail env ns email acct w =
     (case indexEmail env ns email acct (say [ConsoleLog ''Processing new email''] w) of
        (w', Fulfilled) \<Rightarrow> w'
      | (w', Rejected err) \<Rightarrow> say [ConsoleError ''Failed to index email:'' (Some err)] w')"

section \<open>Dates\<close>

text \<open>
  Time values are milliseconds since the epoch. The host's time zone is the function
  \<open>LocalTZA\<close> of the language definition: the offset of local time at a UTC time value
  (\<open>True\<close>) or at a local time value (\<open>False\<close>).
\<close>

type_synonym time_zone = "int \<Rightarrow> bool \<Rightarrow> int"

definition msPerDay :: int where
  "msPerDay = 86400000"

definition Day :: "int \<Rightarrow> int" where
  "Day t = t div msPerDay"

definition TimeWithinDay :: "int \<Rightarrow> int" where
  "TimeWithinDay t = t mod msPerDay"

definition MakeDate :: "int \<Rightarrow> int \<Rightarrow> int" where
  "MakeDate day time = day * msPerDay + time"

definition LocalTime :: "time_zone \<Rightarrow> int \<Rightarrow> int" where
  "LocalTime tz t = t + tz t True"

definition UTC :: "time_zone \<Rightarrow> int \<Rightarrow> int" where
  "UTC tz t = t - tz t False"

text \<open>
  \<open>d.setDate(d.getDate() - k)\<close>: the local day of the month is moved back by \<open>k\<close>, the
  local time within the day is kept, and the result is read as a local time. The day
  number of "day \<open>getDate() - k\<close> of the same month" is the local day number minus \<open>k\<close>.
\<close>

definition setDate_back :: "time_zone \<Rightarrow> int \<Rightarrow> int \<Rightarrow> int" where
  "setDate_back tz t k =
     (let lt = LocalTime tz t
      in UTC tz (MakeDate (Day lt - k) (TimeWithinDay lt)))"

text \<open>
  The calendar date of a day number in the proleptic Gregorian calendar, as year, month
  and day of the month.
\<close>

definition civil :: "int \<Rightarrow> int \<times> int \<times> int" where
  "civil days =
     (let z = days + 719468;
          era = z div 146097;
          doe = z mod 146097;
          yoe = (doe - doe div 1460 + doe div 36524 - doe div 146096) div 365;
          doy = doe - (365 * yoe + yoe div 4 - yoe div 100);
          mp = (5 * doy + 2) div 153;
          d = doy - (153 * mp + 2) div 5 + 1;
          m = (if mp < 10 then mp + 3 else mp - 9);
          y = yoe + era * 400 + (if m \<le> 2 then 1 else 0)
      in (y, m, d))"

definition digit :: "nat \<Rightarrow> char" where
  "digit n = ''0123456789'' ! (n mod 10)"

definition pad2 :: "nat \<Rightarrow> string" where
  "pad2 n = [digit (n div 10), digit n]"

definition pad4 :: "nat \<Rightarrow> string" where
  "pad4 n = pad2 (n div 100) @ pad2 n"

definition pad6 :: "nat \<Rightarrow> string" where
  "pad6 n = pad2 (n div 10000) @ pad4 n"

text \<open>
  \<open>toISOString().split('T')[0]\<close>: the date part of the ISO rendering of a time value,
  which is its UTC calendar date. Years outside 0 to 9999 are printed with a sign and six
  digits.
\<close>

definition isoDay :: "int \<Rightarrow> string" where
  "isoDay days =
     (case civil days of (y, m, d) \<Rightarrow>
        (if 0 \<le> y \<and> y \<le> 9999 then pad4 (nat y)
         else (if y < 0 then ''-'' else ''+'') @ pad6 (nat \<bar>y\<bar>))
        @ ''-'' @ pad2 (nat m) @ ''-'' @ pad2 (nat d))"

definition isoDate :: "int \<Rightarrow> string" where
  "isoDate t = isoDay (Day t)"

section \<open>imap.service.ts\<close>

text \<open>
  The commands the service gives to the connection, and what it does besides: console
  output and the handoff of a decoded message (\<open>processEmail\<close>).
\<close>

datatype conn_state = disconnected | connected | authenticated

datatype criterion = SINCE string | UNSEEN

record fetch_options =
  bodies :: string
  markSeen :: "bool option"

datatype command =
    Connect
  | OpenBox string bool
  | Search "criterion list"
  | Fetch "nat list" fetch_options
  | Noop

datatype effect =
    Cmd command
  | Log log_entry
  | Handoff ParsedMail string

text \<open>The answer of \<open>simpleParser\<close> for one message body: an error, or a mail (or nothing).\<close>

datatype parse_result = ParseError error | Parsed "ParsedMail option"

text \<open>
  One \<open>ImapService\<close> with the part of the event loop it uses. \<open>imap_state\<close> is
  \<open>this.imap.state\<close>, which the connection library sets. \<open>keepAliveInterval\<close> is the
  timer handle last stored in the field of that name; \<open>intervals\<close> and \<open>timeouts\<close> are
  the timers that are armed, each with its handle and its period or delay in
  milliseconds. \<open>ready_once\<close> tells whether the \<open>once('ready')\<close> listener is still
  registered, \<open>mail_handlers\<close> counts the registered \<open>'mail'\<close> listeners. \<open>crashed\<close> is set
  when a callback throws with nothing to catch it, which ends the process.
\<close>

record ImapService =
  accountConfig_id :: string
  imap_state :: conn_state
  keepAliveInterval :: "nat option"
  ready_once :: bool
  mail_handlers :: nat
  intervals :: "(nat \<times> nat) list"
  timeouts :: "(nat \<times> nat) list"
  next_handle :: nat
  crashed :: bool

definition ImapService_new :: "string \<Rightarrow> ImapService" where
  "ImapService_new ident =
     \<lparr>accountConfig_id = ident, imap_state = disconnected, keepAliveInterval = None,
      ready_once = False, mail_handlers = 0, intervals = [], timeouts = [],
      next_handle = 0, crashed = False\<rparr>"

definition clearInterval :: "nat \<Rightarrow> ImapService \<Rightarrow> ImapService" where
  "clearInterval h svc = svc\<lparr>intervals := filter (\<lambda>(i, p). i \<noteq> h) (intervals svc)\<rparr>"

definition setInterval :: "nat \<Rightarrow> ImapService \<Rightarrow> nat \<times> ImapService" where
  "setInterval period svc =
     (next_handle svc,
      svc\<lparr>intervals := intervals svc @ [(next_handle svc, period)],
          next_handle := Suc (next_handle svc)\<rparr>)"

definition setTimeout :: "nat \<Rightarrow> ImapService \<Rightarrow> ImapService" where
  "setTimeout delay svc =
     svc\<lparr>timeouts := timeouts svc @ [(next_handle svc, delay)],
         next_handle := Suc (next_handle svc)\<rparr>"

text \<open>
  \<open>startSync\<close> registers the \<open>'error'\<close> and \<open>'close'\<close> listeners and the one-time
  \<open>'ready'\<close> listener, and connects.
\<close>

definition startSync :: "ImapService \<Rightarrow> ImapService \<times> effect list" where
  "startSync svc =
     (svc\<lparr>ready_once := True\<rparr>,
      [Log (ConsoleLog ''Connecting to IMAP server...''), Cmd Connect])"

definition onError :: "error \<Rightarrow> ImapService \<Rightarrow> ImapService \<times> effect list" where
  "onError err svc = (svc, [Log (ConsoleError ''IMAP Error:'' (Some err))])"

definition onClose :: "ImapService \<Rightarrow> ImapService \<times> effect list" where
  "onClose svc =
     (let svc1 = (case keepAliveInterval svc of
                    Some h \<Rightarrow> clearInterval h svc
                  | None \<Rightarrow> svc)
      in (setTimeout 10000 svc1,
          [Log (ConsoleLog ''Connection closed.''),
           Log (ConsoleLog ''Reconnecting in 10 seconds...'')]))"

definition onReconnectTimer :: "ImapService \<Rightarrow> ImapService \<times> effect list" where
  "onReconnectTimer svc =
     (svc, [Log (ConsoleLog ''Attempting to reconnect...''), Cmd Connect])"

definition onReady :: "ImapService \<Rightarrow> ImapService \<times> effect list" where
  "onReady svc =
     (svc, [Log (ConsoleLog ''Successfully connected!''), Cmd (OpenBox ''INBOX'' False)])"

definition onKeepAlive :: "ImapService \<Rightarrow> effect list" where
  "onKeepAlive svc =
     (if imap_state svc = authenticated
      then [Log (ConsoleLog ''Sending keep-alive NOOP.''), Cmd Noop]
      else [])"

text \<open>\<open>fetchInitialEmails\<close>, up to the search; then its search callback.\<close>

definition searchDate :: "time_zone \<Rightarrow> int \<Rightarrow> string" where
  "searchDate tz t = isoDate (setDate_back tz t 1)"

definition fetchInitialEmails :: "time_zone \<Rightarrow> int \<Rightarrow> effect list" where
  "fetchInitialEmails tz t = [Cmd (Search [SINCE (searchDate tz t)])]"

definition fetchInitialEmails_onSearch ::
  "ImapService \<Rightarrow> error option \<Rightarrow> nat list \<Rightarrow> effect list" where
  "fetchInitialEmails_onSearch svc err uids =
     (case err of
        Some e \<Rightarrow> [Log (ConsoleError ''Error searching emails:'' (Some e))]
      | None \<Rightarrow>
          if uids = [] then [Log (ConsoleLog ''No new emails in the last 30 days.'')]
          else
            Log (ConsoleLog ''Found emails to fetch.'')
            # (if imap_state svc \<noteq> authenticated
               then [Log (ConsoleError
                            ''Not authenticated. Fetch aborted. Reconnect will handle.'' None)]
               else [Cmd (Fetch uids \<lparr>bodies = '''', markSeen = None\<rparr>)]))"

text \<open>The parser callback of one message body; the two fetches differ in the log line.\<close>

definition onParsed :: "string \<Rightarrow> string \<Rightarrow> parse_result \<Rightarrow> effect list" where
  "onParsed line acct r =
     (case r of
        ParseError e \<Rightarrow> [Log (ConsoleError line (Some e))]
      | Parsed None \<Rightarrow> []
      | Parsed (Some parsedMail) \<Rightarrow> [Handoff parsedMail acct])"

text \<open>\<open>listenForNewEmails\<close> registers the \<open>'mail'\<close> listener; then that listener and its
  search callback.\<close>

definition listenForNewEmails :: "ImapService \<Rightarrow> ImapService \<times> effect list" where
  "listenForNewEmails svc =
     (svc\<lparr>mail_handlers := Suc (mail_handlers svc)\<rparr>,
      [Log (ConsoleLog ''Entering IDLE mode for real-time updates.'')])"

definition onMail :: "ImapService \<Rightarrow> effect list" where
  "onMail svc =
     Log (ConsoleLog ''New mail event!'')
     # (if imap_state svc \<noteq> authenticated
        then [Log (ConsoleError
                     ''Not authenticated. Search aborted. Reconnect will handle.'' None)]
        else [Cmd (Search [UNSEEN])])"

definition onMail_onSearch :: "error option \<Rightarrow> nat list \<Rightarrow> effect list" where
  "onMail_onSearch err uids =
     (case err of
        Some e \<Rightarrow> [Log (ConsoleError ''Error searching for unseen emails:'' (Some e))]
      | None \<Rightarrow>
          if uids = [] then []
          else [Cmd (Fetch uids \<lparr>bodies = '''', markSeen = Some True\<rparr>)])"

text \<open>
  The callback of \<open>openBox\<close>: an error is thrown again, out of the callback; otherwise
  the backfill is started, the \<open>'mail'\<close> listener is registered and the keep-alive timer
  is replaced by a new one.
\<close>

definition onReady_openBox ::
  "time_zone \<Rightarrow> int \<Rightarrow> error option \<Rightarrow> ImapService \<Rightarrow> ImapService \<times> effect list" where
  "onReady_openBox tz t err svc =
     (case err of
        Some e \<Rightarrow> (svc\<lparr>crashed := True\<rparr>, [])
      | None \<Rightarrow>
          let out1 = [Log (ConsoleLog ''INBOX opened. Starting initial fetch...'')];
              out2 = fetchInitialEmails tz t;
              (svc1, out3) = listenForNewEmails svc;
              svc2 = (case keepAliveInterval svc1 of
                        Some h \<Rightarrow> clearInterval h svc1
                      | None \<Rightarrow> svc1);
              (h, svc3) = setInterval 300000 svc2
          in (svc3\<lparr>keepAliveInterval := Some h\<rparr>, out1 @ out2 @ out3))"

text \<open>
  What can happen to a service after \<open>startSync\<close>, whose \<open>'error'\<close> and \<open>'close'\<close>
  listeners stay registered: the events of the connection (before \<open>'ready'\<close> and
  \<open>'close'\<close> the library has set \<open>imap.state\<close>), the callbacks of the commands it gave,
  the parser's answer for the body of a fetched message (\<open>EvBody\<close> in the backfill,
  \<open>EvBodyNew\<close> in the fetch after a new-mail signal), the \<open>'error'\<close> and \<open>'end'\<close> events of
  a fetch (\<open>True\<close> for the fetch after a new-mail signal), and the timers. A timer that is
  not armed does not fire. Nothing happens in a process that has ended.
\<close>

datatype event =
    EvConnected
  | EvReady
  | EvClose
  | EvError error
  | EvOpenBoxDone "error option" int
  | EvSearchSinceDone "error option" "nat list"
  | EvBody parse_result
  | EvMail nat
  | EvSearchUnseenDone "error option" "nat list"
  | EvBodyNew parse_result
  | EvFetchError bool error
  | EvFetchEnd bool
  | EvInterval nat
  | EvTimeout nat

definition step :: "time_zone \<Rightarrow> ImapService \<Rightarrow> event \<Rightarrow> ImapService \<times> effect list" where
  "step tz svc ev =
     (if crashed svc then (svc, [])
      else case ev of
        EvConnected \<Rightarrow> (svc\<lparr>imap_state := connected\<rparr>, [])
      | EvReady \<Rightarrow>
          (let svc1 = svc\<lparr>imap_state := authenticated\<rparr>
           in if ready_once svc1 then onReady (svc1\<lparr>ready_once := False\<rparr>) else (svc1, []))
      | EvClose \<Rightarrow> onClose (svc\<lparr>imap_state := disconnected\<rparr>)
      | EvError e \<Rightarrow> onError e svc
      | EvOpenBoxDone err t \<Rightarrow> onReady_openBox tz t err svc
      | EvSearchSinceDone err uids \<Rightarrow> (svc, fetchInitialEmails_onSearch svc err uids)
      | EvBody r \<Rightarrow> (svc, onParsed ''Error parsing email:'' (accountConfig_id svc) r)
      | EvMail n \<Rightarrow> (svc, concat (replicate (mail_handlers svc) (onMail svc)))
      | EvSearchUnseenDone err uids \<Rightarrow> (svc, onMail_onSearch err uids)
      | EvBodyNew r \<Rightarrow> (svc, onParsed ''Error parsing new email:'' (accountConfig_id svc) r)
      | EvFetchError live e \<Rightarrow>
          (svc, [Log (ConsoleError (if live then ''New mail fetch error:'' else ''Fetch error:'')
                        (Some e))])
      | EvFetchEnd live \<Rightarrow>
          (svc, [Log (ConsoleLog (if live then ''Finished fetching new email(s).''
                                  else ''Finished fetching initial emails.''))])
      | EvInterval h \<Rightarrow>
          (svc, if h \<in> fst ` set (intervals svc) then onKeepAlive svc else [])
      | EvTimeout h \<Rightarrow>
          (if h \<in> fst ` set (timeouts svc)
           then onReconnectTimer (svc\<lparr>timeouts := filter (\<lambda>(i, d). i \<noteq> h) (timeouts svc)\<rparr>)
           else (svc, [])))"

fun run :: "time_zone \<Rightarrow> ImapService \<Rightarrow> event list \<Rightarrow> ImapService \<times> effect list" where
  "run tz svc [] = (svc, [])"
| "run tz svc (e # es) =
     (case step tz svc e of (svc1, out1) \<Rightarrow>
        (case run tz svc1 es of (svc2, out2) \<Rightarrow> (svc2, out1 @ out2)))"

text \<open>The commands and the handoffs among the effects.\<close>

fun commands :: "effect list \<Rightarrow> command list" where
  "commands [] = []"
| "commands (Cmd c # es) = c # commands es"
| "commands (_ # es) = commands es"

fun handoffs :: "effect list \<Rightarrow> (ParsedMail \<times> string) list" where
  "handoffs [] = []"
| "handoffs (Handoff m a # es) = (m, a) # handoffs es"
| "handoffs (_ # es) = handoffs es"

fun logged_errors :: "effect list \<Rightarrow> error list" where
  "logged_errors [] = []"
| "logged_errors (Log (ConsoleError _ (Some e)) # es) = e # logged_errors es"
| "logged_errors (_ # es) = logged_errors es"

text \<open>The mails and the failures among the parser's answers for a batch of bodies.\<close>

fun decoded :: "parse_result list \<Rightarrow> ParsedMail list" where
  "decoded [] = []"
| "decoded (Parsed (Some m) # rs) = m # decoded rs"
| "decoded (_ # rs) = decoded rs"

fun failures :: "parse_result list \<Rightarrow> error list" where
  "failures [] = []"
| "failures (ParseError e # rs) = e # failures rs"
| "failures (_ # rs) = failures rs"

fun is_search :: "command \<Rightarrow> bool" where
  "is_search (Search _) = True"
| "is_search _ = False"

fun inbox_opened :: "event \<Rightarrow> bool" where
  "inbox_opened (EvOpenBoxDone None _) = True"
| "inbox_opened _ = False"

text \<open>
  Every armed interval timer is the one whose handle the service holds, with the
  keep-alive period.
\<close>

definition timers_ok :: "ImapService \<Rightarrow> bool" where
  "timers_ok svc =
     (\<forall>(h, p) \<in> set (intervals svc). keepAliveInterval svc = Some h \<and> p = 300000)"

text \<open>
  The read flags of the mailbox on the server, as the set of message ids flagged seen. A
  fetch of bodies with \<open>markSeen\<close> set flags the fetched messages; without it the bodies
  are peeked at, and no other command of the service touches the flags.
\<close>

fun server_seen :: "command list \<Rightarrow> nat set \<Rightarrow> nat set" where
  "server_seen [] seen = seen"
| "server_seen (Fetch uids opts # cs) seen =
     server_seen cs (if markSeen opts = Some True then seen \<union> set uids else seen)"
| "server_seen (_ # cs) seen = server_seen cs seen"

section \<open>index.ts\<close>

text \<open>
  \<open>startApp\<close>. The result of \<open>JSON.parse\<close> on the configured text is a thrown syntax
  error, \<open>null\<close>, another value that is not an array, or an array. An element of the
  array is kept as its \<open>id\<close>, or is \<open>null\<close> (here \<open>None\<close>): starting a service for \<open>null\<close>
  throws when the account id is read. \<open>initialize\<close> of the store service ends the
  process with code 1 when the store cannot be reached.
\<close>

datatype json_accounts =
    JsonThrows error
  | JsonNull
  | JsonNotArray
  | JsonArray "string option list"

record app_env =
  es_initialize :: "error option"
  IMAP_ACCOUNTS :: "string option"

record app =
  exit_code :: "nat option"
  listening :: bool
  services :: "ImapService list"
  console :: "log_entry list"

text \<open>
  The \<open>forEach\<close> over the accounts: services are started in order, and the first element
  whose start throws ends the loop with that error; the services started before it keep
  running.
\<close>

fun startAll :: "string option list \<Rightarrow> ImapService list \<times> error option" where
  "startAll [] = ([], None)"
| "startAll (None # rest) = ([], Some (Error ''TypeError''))"
| "startAll (Some a # rest) =
     (case startAll rest of (svcs, r) \<Rightarrow> (fst (startSync (ImapService_new a)) # svcs, r))"

definition startApp :: "(string \<Rightarrow> json_accounts) \<Rightarrow> app_env \<Rightarrow> app" where
  "startApp JSON_parse env =
     (case es_initialize env of
        Some e \<Rightarrow>
          \<lparr>exit_code = Some 1, listening = False, services = [],
           console = [ConsoleError ''[Elasticsearch] Error initializing client:'' (Some e)]\<rparr>
      | None \<Rightarrow>
          let (svcs, out) =
                (if \<not> truthy (IMAP_ACCOUNTS env)
                 then ([], [ConsoleError ''IMAP_ACCOUNTS env not set. IMAP sync disabled.'' None])
                 else case JSON_parse (the (IMAP_ACCOUNTS env)) of
                        JsonThrows e \<Rightarrow>
                          ([], [ConsoleError ''Failed to parse IMAP_ACCOUNTS.'' (Some e)])
                      | JsonNull \<Rightarrow>
                          ([], [ConsoleError ''Failed to parse IMAP_ACCOUNTS.''
                                  (Some (Error ''TypeError''))])
                      | JsonNotArray \<Rightarrow>
                          ([], [ConsoleLog ''Found account(s) to sync.'',
                                ConsoleError ''Failed to parse IMAP_ACCOUNTS.''
                                  (Some (Error ''TypeError''))])
                      | JsonArray accounts \<Rightarrow>
                          (case startAll accounts of
                             (started, None) \<Rightarrow>
                               (started, [ConsoleLog ''Found account(s) to sync.''])
                           | (started, Some e) \<Rightarrow>
                               (started,
                                [ConsoleLog ''Found account(s) to sync.'',
                                 ConsoleError ''Failed to parse IMAP_ACCOUNTS.'' (Some e)])))
          in \<lparr>exit_code = None, listening = True, services = svcs,
              console = out @ [ConsoleLog ''API Server running'']\<rparr>)"

fun is_array :: "json_accounts \<Rightarrow> bool" where
  "is_array (JsonArray _) = True"
| "is_array _ = False"

section \<open>Sample inputs\<close>

definition sample_parse :: "string \<Rightarrow> json_accounts" where
  "sample_parse s = (if s = ''[]'' then JsonArray [] else JsonThrows (Error ''SyntaxError''))"

definition malformed_env :: app_env where
  "malformed_env = \<lparr>es_initialize = None, IMAP_ACCOUNTS = Some ''[{id:''\<rparr>"

definition empty_sink :: sink where
  "empty_sink = \<lparr>stored = \<lparr>docs = [], next_auto = 0\<rparr>, sent = [], logged = []\<rparr>"

definition scripted_env ::
  "ai_reply \<Rightarrow> es_reply \<Rightarrow> send_result \<Rightarrow> send_result \<Rightarrow> int \<Rightarrow> sink_env" where
  "scripted_env a s sl wh t =
     \<lparr>ai_post = (\<lambda>_. a), es_index = (\<lambda>_. s),
      notify = (\<lambda>n. case n of SlackSend _ _ \<Rightarrow> sl | WebhookPost _ _ \<Rightarrow> wh), now = t\<rparr>"

definition both_sinks :: NotificationService where
  "both_sinks = fst (NotificationService_new (Some ''https://hooks.slack.test/T1'')
                       (Some ''https://webhook.test/abc''))"

definition lead_mail :: ParsedMail where
  "lead_mail = \<lparr>mail_messageId = Some ''<m1@example.org>'',
                 mail_from = Some ''alice@example.org'',
                 mail_to = ManyAddresses [''bob@example.org'', ''carol@example.org''],
                 mail_subject = Some ''Pricing'',
                 mail_text = Some ''Tell me more'',
                 mail_html = None,
                 mail_date = Some 1700000000000\<rparr>"

definition bare_mail :: ParsedMail where
  "bare_mail = \<lparr>mail_messageId = Some ''<m2@example.org>'',
                 mail_from = None, mail_to = NoAddress, mail_subject = None,
                 mail_text = None, mail_html = None, mail_date = None\<rparr>"

definition first_pass :: sink_env where
  "first_pass = scripted_env (AiData (Some ''Interested'')) Indexed Delivered Delivered 1793610720000"

definition second_pass :: sink_env where
  "second_pass =
     scripted_env (AiRejects (Error ''timeout of 10000ms exceeded'')) Indexed Delivered Delivered
       1793610780000"

definition slack_down :: sink_env where
  "slack_down =
     scripted_env (AiData (Some ''Interested'')) Indexed (SendFails (Error ''503'')) Delivered
       1793610720000"

definition store_down :: sink_env where
  "store_down =
     scripted_env (AiRejects (Error ''ECONNREFUSED'')) (EsRejects (Error ''ConnectionError''))
       Delivered Delivered 1793610720000"

definition store_down_env :: app_env where
  "store_down_env =
     \<lparr>es_initialize = Some (Error ''ConnectionError''), IMAP_ACCOUNTS = Some ''[{id:''\<rparr>"

text \<open>
  A host on central European time around the end of summer time in 2026: two hours east
  of UTC until 2026-10-25T01:00Z, one hour after it. A local time value that occurs twice
  is read with the offset before the change.
\<close>

definition berlin_autumn :: time_zone where
  "berlin_autumn t isUTC =
     (if t < (if isUTC then 1792890000000 else 1792890000000 + 7200000)
      then 7200000 else 3600000)"

text \<open>A host five and a half hours east of UTC, and a service whose inbox is open.\<close>

definition fixed_zone :: time_zone where
  "fixed_zone t u = 19800000"

definition fresh_service :: ImapService where
  "fresh_service = fst (startSync (ImapService_new ''acct1''))"

definition ready_service :: ImapService where
  "ready_service = fst (run fixed_zone fresh_service [EvReady, EvOpenBoxDone None 1793610720000])"

section \<open>Properties of the sink\<close>

lemmas sink_eval =
  indexEmail_def indexEmail_try_def prepare_def categorizeEmail_def document_def
  scripted_env_def both_sinks_def NotificationService_new_def lead_mail_def bare_mail_def
  empty_sink_def or_else_def truthy_def fallbackCategory_def say_def attempt_def
  sendInterestNotification_def client_index_def lookup_def toText_def Let_def
  first_pass_def second_pass_def slack_down_def store_down_def

lemma or_else_again: "or_else (Some (or_else x d)) d = or_else x d"
  by (simp add: or_else_def split: option.splits)

lemma say_fields: "stored (say ls w) = stored w" "sent (say ls w) = sent w"
  "logged (say ls w) = logged w @ ls"
  by (simp_all add: say_def)

lemma attempt_fields:
  "stored (attempt c n a b w) = stored w"
  "sent (attempt c n a b w) = sent w @ [n]"
  by (simp_all add: attempt_def Let_def say_def split: send_result.splits)

lemma attempt_logged:
  "logged (attempt c n a b w) =
     logged w @ [case c n of Delivered \<Rightarrow> ConsoleLog a | SendFails e \<Rightarrow> ConsoleError b (Some e)]"
  by (simp add: attempt_def Let_def say_def split: send_result.splits)

lemma notification_keeps_store: "stored (sendInterestNotification ns c d w) = stored w"
  by (simp add: sendInterestNotification_def Let_def attempt_fields say_fields split: option.splits)

lemma notification_sent:
  "sent (sendInterestNotification ns c d w) =
     sent w @ (if aiCategory d = Some ''Interested''
               then (case slackWebhook ns of None \<Rightarrow> []
                     | Some _ \<Rightarrow> [SlackSend (or_else (from_text d) ''Unknown'') (or_else (subject d) ''No Subject'')])
                    @ (if truthy (webhookSiteUrl ns) then [WebhookPost (the (webhookSiteUrl ns)) d] else [])
               else [])"
  by (simp add: sendInterestNotification_def Let_def attempt_fields say_fields split: option.splits)

lemma categorize_rejected:
  "post \<lparr>req_subject = or_else (Some s) ''No Subject'', req_body = or_else (Some b) ''''\<rparr> = AiRejects e
   \<Longrightarrow> categorizeEmail post s b = (''General'', [ConsoleError ''[AI Service] Categorization failed:'' (Some e)])"
  by (cases e) (simp add: categorizeEmail_def Let_def fallbackCategory_def)

lemma prepare_fields:
  "messageId (fst (prepare env email acct)) = mail_messageId email"
  "subject (fst (prepare env email acct)) = mail_subject email"
  "accountId (fst (prepare env email acct)) = acct"
  "receivedAt (fst (prepare env email acct)) = (case mail_date email of Some d \<Rightarrow> d | None \<Rightarrow> now env)"
  by (simp_all add: prepare_def Let_def document_def split: prod.splits)

lemma indexEmail_indexed:
  "es_index env (fst (prepare env email acct)) = Indexed \<Longrightarrow>
   indexEmail env ns email acct w =
     (sendInterestNotification ns (notify env) (fst (prepare env email acct))
        (say [ConsoleLog ''[Elasticsearch] Indexed email'']
           ((say (snd (prepare env email acct)) w)
              \<lparr>stored := client_index (mail_messageId email) (fst (prepare env email acct)) (stored w)\<rparr>)),
      Fulfilled)"
  by (simp add: indexEmail_def indexEmail_try_def Let_def case_prod_beta prepare_fields say_fields)

lemma indexEmail_rejected:
  "es_index env (fst (prepare env email acct)) = EsRejects e \<Longrightarrow>
   indexEmail env ns email acct w =
     (say [ConsoleError ''[Elasticsearch] Error indexing email:'' (Some e)]
        (say (snd (prepare env email acct)) w), Fulfilled)"
  by (simp add: indexEmail_def indexEmail_try_def Let_def case_prod_beta)

lemma prepare_notify: "prepare (env\<lparr>notify := c\<rparr>) email acct = prepare env email acct"
  by (simp add: prepare_def)

lemma prepare_category_rejected:
  assumes "ai_post env \<lparr>req_subject = or_else (mail_subject email) ''No Subject'',
                         req_body = or_else (mail_text email) ''''\<rparr> = AiRejects e"
  shows "prepare env email acct =
           (document email acct ''General'' (now env),
            [ConsoleError ''[AI Service] Categorization failed:'' (Some e)])"
proof -
  have "categorizeEmail (ai_post env) (or_else (mail_subject email) ''No Subject'')
          (or_else (mail_text email) '''')
        = (''General'', [ConsoleError ''[AI Service] Categorization failed:'' (Some e)])"
    using assms by (intro categorize_rejected) (simp add: or_else_again)
  then show ?thesis by (simp add: prepare_def)
qed

lemma client_index_lookup: "lookup (client_index (Some m) d s) (Key m) = Some d"
  by (simp add: client_index_def lookup_def update_conv')

lemma client_index_keys:
  "Key m \<in> set (map fst (docs s)) \<Longrightarrow>
   map fst (docs (client_index (Some m) d s)) = map fst (docs s)"
  by (simp add: client_index_def update_keys)

lemma client_index_has_key: "Key m \<in> set (map fst (docs (client_index (Some m) d s)))"
  using AList.dom_update [of "Key m" d "docs s"] by (simp add: client_index_def)

lemma stored_indexed:
  "es_index env (fst (prepare env email acct)) = Indexed \<Longrightarrow>
   stored (fst (indexEmail env ns email acct w)) =
     client_index (mail_messageId email) (fst (prepare env email acct)) (stored w)"
  by (simp add: indexEmail_indexed notification_keeps_store say_fields)

text \<open>
  Claim C1. A message with a message identifier is indexed twice, by any two passes whose
  index requests the store accepts. Both passes write under the key of the message
  identifier; after the second pass that key holds the document the second pass built,
  and the store has the same keys as after the first pass: the entry is overwritten, and
  none is added.
\<close>

theorem reindex_overwrites:
  assumes "mail_messageId email = Some m"
    and "es_index env1 (fst (prepare env1 email acct)) = Indexed"
    and "es_index env2 (fst (prepare env2 email acct)) = Indexed"
  shows "let w1 = fst (indexEmail env1 ns email acct w0);
             w2 = fst (indexEmail env2 ns email acct w1)
         in lookup (stored w1) (Key m) = Some (fst (prepare env1 email acct)) \<and>
            lookup (stored w2) (Key m) = Some (fst (prepare env2 email acct)) \<and>
            map fst (docs (stored w2)) = map fst (docs (stored w1)) \<and>
            length (docs (stored w2)) = length (docs (stored w1)) \<and>
            (distinct (map fst (docs (stored w0))) \<longrightarrow>
               distinct (map fst (docs (stored w2))))"
proof -
  define w1 where "w1 = fst (indexEmail env1 ns email acct w0)"
  define w2 where "w2 = fst (indexEmail env2 ns email acct w1)"
  have s1: "stored w1 = client_index (Some m) (fst (prepare env1 email acct)) (stored w0)"
    unfolding w1_def using assms(1,2) by (simp add: stored_indexed)
  have s2: "stored w2 = client_index (Some m) (fst (prepare env2 email acct)) (stored w1)"
    unfolding w2_def using assms(1,3) by (simp add: stored_indexed)
  have "Key m \<in> set (map fst (docs (stored w1)))"
    unfolding s1 by (rule client_index_has_key)
  then have k: "map fst (docs (stored w2)) = map fst (docs (stored w1))"
    unfolding s2 by (rule client_index_keys)
  then have "length (map fst (docs (stored w2))) = length (map fst (docs (stored w1)))"
    by simp
  then have l: "length (docs (stored w2)) = length (docs (stored w1))"
    by simp
  have d: "distinct (map fst (docs (stored w2)))" if "distinct (map fst (docs (stored w0)))"
    unfolding k s1 using that by (simp add: client_index_def distinct_update)
  note k l d
  moreover have "lookup (stored w1) (Key m) = Some (fst (prepare env1 email acct))"
    unfolding s1 by (rule client_index_lookup)
  moreover have "lookup (stored w2) (Key m) = Some (fst (prepare env2 email acct))"
    unfolding s2 by (rule client_index_lookup)
  ultimately show ?thesis by (simp add: w1_def w2_def Let_def)
qed

theorem reindex_overwrites_witness:
  "mail_messageId lead_mail = Some ''<m1@example.org>'' \<and>
   es_index first_pass (fst (prepare first_pass lead_mail ''acct1'')) = Indexed \<and>
   es_index second_pass (fst (prepare second_pass lead_mail ''acct1'')) = Indexed \<and>
   lookup (stored (fst (indexEmail second_pass both_sinks lead_mail ''acct1''
                      (fst (indexEmail first_pass both_sinks lead_mail ''acct1'' empty_sink)))))
     (Key ''<m1@example.org>'')
   = Some (document lead_mail ''acct1'' ''General'' 1793610780000) \<and>
   map fst (docs (stored (fst (indexEmail second_pass both_sinks lead_mail ''acct1''
                      (fst (indexEmail first_pass both_sinks lead_mail ''acct1'' empty_sink))))))
   = [Key ''<m1@example.org>''] \<and>
   distinct (map fst (docs (stored empty_sink)))"
  using reindex_overwrites [where email = lead_mail and m = "''<m1@example.org>''"
      and ?env1.0 = first_pass and ?env2.0 = second_pass and acct = "''acct1''"
      and ns = both_sinks and ?w0.0 = empty_sink]
  by (simp add: sink_eval)

text \<open>
  Claim C5. When the categorization request is rejected (timeout or failure),
  \<open>categorizeEmail\<close> returns \<open>General\<close>; \<open>indexEmail\<close> still ends normally; no
  notification attempt is made; and when the store accepts the index request the message
  is stored with the category \<open>General\<close>.
\<close>

theorem ai_failure_uses_fallback:
  assumes "ai_post env \<lparr>req_subject = or_else (mail_subject email) ''No Subject'',
                         req_body = or_else (mail_text email) ''''\<rparr> = AiRejects e"
  shows "fst (categorizeEmail (ai_post env) (or_else (mail_subject email) ''No Subject'')
                (or_else (mail_text email) '''')) = ''General'' \<and>
         snd (indexEmail env ns email acct w) = Fulfilled \<and>
         sent (fst (indexEmail env ns email acct w)) = sent w \<and>
         (es_index env (document email acct ''General'' (now env)) = Indexed \<longrightarrow>
            stored (fst (indexEmail env ns email acct w)) =
              client_index (mail_messageId email) (document email acct ''General'' (now env))
                (stored w))"
proof -
  have p: "prepare env email acct =
             (document email acct ''General'' (now env),
              [ConsoleError ''[AI Service] Categorization failed:'' (Some e)])"
    using assms by (rule prepare_category_rejected)
  have c: "fst (categorizeEmail (ai_post env) (or_else (mail_subject email) ''No Subject'')
                (or_else (mail_text email) '''')) = ''General''"
    using assms by (subst categorize_rejected [where e = e]) (simp_all add: or_else_again)
  have cat: "aiCategory (document email acct ''General'' (now env)) \<noteq> Some ''Interested''"
    by (simp add: document_def)
  have f: "snd (indexEmail env ns email acct w) = Fulfilled"
    by (cases "es_index env (fst (prepare env email acct))")
       (simp_all add: indexEmail_indexed indexEmail_rejected)
  have n: "sent (fst (indexEmail env ns email acct w)) = sent w"
  proof (cases "es_index env (fst (prepare env email acct))")
    case Indexed
    then show ?thesis using cat
      by (simp add: indexEmail_indexed notification_sent say_fields p)
  next
    case (EsRejects x)
    then show ?thesis by (simp add: indexEmail_rejected say_fields)
  qed
  have s: "es_index env (document email acct ''General'' (now env)) = Indexed \<longrightarrow>
            stored (fst (indexEmail env ns email acct w)) =
              client_index (mail_messageId email) (document email acct ''General'' (now env))
                (stored w)"
    using stored_indexed [of env email acct ns w] by (simp add: p)
  from c f n s show ?thesis by blast
qed

theorem ai_failure_uses_fallback_witness:
  "ai_post second_pass \<lparr>req_subject = or_else (mail_subject lead_mail) ''No Subject'',
                         req_body = or_else (mail_text lead_mail) ''''\<rparr>
     = AiRejects (Error ''timeout of 10000ms exceeded'') \<and>
   es_index second_pass (document lead_mail ''acct1'' ''General'' (now second_pass)) = Indexed \<and>
   sent (fst (indexEmail second_pass both_sinks lead_mail ''acct1'' empty_sink)) = [] \<and>
   map_option aiCategory
     (lookup (stored (fst (indexEmail second_pass both_sinks lead_mail ''acct1'' empty_sink)))
        (Key ''<m1@example.org>''))
   = Some (Some ''General'')"
  using ai_failure_uses_fallback [where env = second_pass and email = lead_mail
      and e = "Error ''timeout of 10000ms exceeded''" and acct = "''acct1''"
      and ns = both_sinks and w = empty_sink]
  by (simp add: sink_eval)

text \<open>
  Claim C6. When a document of category \<open>Interested\<close> has been stored, the notification
  attempts are exactly one for Slack when it is configured, followed by one for the
  external webhook when it is configured, whatever the sinks answer (\<open>c\<close> is any
  behaviour of the sinks, so a failure of one does not suppress the other), and the
  store holds what the index request wrote, whatever the sinks answer.
\<close>

theorem interested_notifies_each_sink:
  assumes "es_index env (fst (prepare env email acct)) = Indexed"
    and "aiCategory (fst (prepare env email acct)) = Some ''Interested''"
  shows "let d = fst (prepare env email acct);
             w' = fst (indexEmail (env\<lparr>notify := c\<rparr>) ns email acct w)
         in sent w' =
              sent w
              @ (case slackWebhook ns of
                   None \<Rightarrow> []
                 | Some _ \<Rightarrow> [SlackSend (or_else (from_text d) ''Unknown'')
                                         (or_else (subject d) ''No Subject'')])
              @ (if truthy (webhookSiteUrl ns)
                 then [WebhookPost (the (webhookSiteUrl ns)) d] else [])
            \<and> stored w' = client_index (mail_messageId email) d (stored w)"
proof -
  let ?env = "env\<lparr>notify := c\<rparr>"
  have p: "prepare ?env email acct = prepare env email acct"
    by (rule prepare_notify)
  have i: "es_index ?env (fst (prepare ?env email acct)) = Indexed"
    using assms(1) by (simp add: p)
  show ?thesis
    using assms(2) stored_indexed [OF i, of ns w]
    by (simp add: indexEmail_indexed [OF i] notification_sent say_fields p Let_def)
qed

theorem interested_notifies_each_sink_witness:
  "es_index first_pass (fst (prepare first_pass lead_mail ''acct1'')) = Indexed \<and>
   aiCategory (fst (prepare first_pass lead_mail ''acct1'')) = Some ''Interested'' \<and>
   sent (fst (indexEmail (first_pass\<lparr>notify := notify slack_down\<rparr>) both_sinks lead_mail
                ''acct1'' empty_sink))
   = [SlackSend ''alice@example.org'' ''Pricing'',
      WebhookPost ''https://webhook.test/abc''
        (document lead_mail ''acct1'' ''Interested'' 1793610720000)] \<and>
   lookup (stored (fst (indexEmail (first_pass\<lparr>notify := notify slack_down\<rparr>) both_sinks
                          lead_mail ''acct1'' empty_sink)))
     (Key ''<m1@example.org>'')
   = Some (document lead_mail ''acct1'' ''Interested'' 1793610720000)"
  using interested_notifies_each_sink [where env = first_pass and email = lead_mail
      and acct = "''acct1''" and c = "notify slack_down" and ns = both_sinks and w = empty_sink]
  by (simp add: sink_eval)




lemma indexEmail_fulfilled: "snd (indexEmail env ns email acct w) = Fulfilled"
  by (cases "es_index env (fst (prepare env email acct))")
     (simp_all add: indexEmail_indexed indexEmail_rejected)

lemma notification_logged:
  "logged (sendInterestNotification ns c d w) =
     logged w
     @ (if aiCategory d = Some ''Interested''
        then [ConsoleLog ''[Notification] 'Interested' email detected'']
             @ (case slackWebhook ns of
                  None \<Rightarrow> []
                | Some _ \<Rightarrow>
                    [case c (SlackSend (or_else (from_text d) ''Unknown'')
                                       (or_else (subject d) ''No Subject'')) of
                       Delivered \<Rightarrow> ConsoleLog ''[Slack] Notification sent.''
                     | SendFails e \<Rightarrow> ConsoleError ''[Slack] Error sending notification:'' (Some e)])
             @ (if truthy (webhookSiteUrl ns)
                then [case c (WebhookPost (the (webhookSiteUrl ns)) d) of
                        Delivered \<Rightarrow> ConsoleLog ''[Webhook] Webhook.site triggered.''
                      | SendFails e \<Rightarrow>
                          ConsoleError ''[Webhook] Error triggering webhook.site:'' (Some e)]
                else [])
        else [])"
  by (simp add: sendInterestNotification_def Let_def attempt_logged attempt_fields say_fields
      split: option.splits)

text \<open>
  Claim C10. The promise of \<open>indexEmail\<close> is always fulfilled, so the \<open>catch\<close> handler
  of \<open>processEmail\<close> never runs and the handoff is \<open>indexEmail\<close> after one log line. When
  the store rejects the index request, nothing is stored, no notification is attempted
  and the error is logged; when it accepts, every notification attempt that fails is
  logged. A rejected categorization request is logged too.
\<close>

theorem handoff_never_rejects:
  "let d = fst (prepare env email acct);
       r = indexEmail env ns email acct w;
       w' = fst r
   in snd r = Fulfilled \<and>
      processEmail env ns email acct w =
        fst (indexEmail env ns email acct (say [ConsoleLog ''Processing new email''] w)) \<and>
      (case es_index env d of
         EsRejects e \<Rightarrow>
           sent w' = sent w \<and> stored w' = stored w \<and>
           logged w' = logged w @ snd (prepare env email acct)
                       @ [ConsoleError ''[Elasticsearch] Error indexing email:'' (Some e)]
       | Indexed \<Rightarrow>
           stored w' = client_index (mail_messageId email) d (stored w) \<and>
           (\<forall>n \<in> set (drop (length (sent w)) (sent w')). \<forall>e. notify env n = SendFails e \<longrightarrow>
              (\<exists>line. ConsoleError line (Some e) \<in> set (drop (length (logged w)) (logged w')))))
      \<and> (case ai_post env \<lparr>req_subject = or_else (mail_subject email) ''No Subject'',
                            req_body = or_else (mail_text email) ''''\<rparr> of
            AiRejects e \<Rightarrow>
              ConsoleError ''[AI Service] Categorization failed:'' (Some e)
                \<in> set (drop (length (logged w)) (logged w'))
          | AiData _ \<Rightarrow> True)"
proof -
  let ?d = "fst (prepare env email acct)"
  let ?w' = "fst (indexEmail env ns email acct w)"
  have f: "snd (indexEmail env ns email acct w) = Fulfilled"
    by (rule indexEmail_fulfilled)
  have p: "processEmail env ns email acct w =
        fst (indexEmail env ns email acct (say [ConsoleLog ''Processing new email''] w))"
    using indexEmail_fulfilled [of env ns email acct "say [ConsoleLog ''Processing new email''] w"]
    by (cases "indexEmail env ns email acct (say [ConsoleLog ''Processing new email''] w)")
       (simp add: processEmail_def)
  have s: "case es_index env ?d of
         EsRejects e \<Rightarrow>
           sent ?w' = sent w \<and> stored ?w' = stored w \<and>
           logged ?w' = logged w @ snd (prepare env email acct)
                       @ [ConsoleError ''[Elasticsearch] Error indexing email:'' (Some e)]
       | Indexed \<Rightarrow>
           stored ?w' = client_index (mail_messageId email) ?d (stored w) \<and>
           (\<forall>n \<in> set (drop (length (sent w)) (sent ?w')). \<forall>e. notify env n = SendFails e \<longrightarrow>
              (\<exists>line. ConsoleError line (Some e) \<in> set (drop (length (logged w)) (logged ?w'))))"
  proof (cases "es_index env ?d")
    case Indexed
    have "\<exists>line. ConsoleError line (Some e) \<in> set (drop (length (logged w)) (logged ?w'))"
      if "n \<in> set (drop (length (sent w)) (sent ?w'))" and "notify env n = SendFails e" for n e
      using that
      by (auto simp: indexEmail_indexed [OF Indexed] notification_sent notification_logged
          say_fields split: option.splits if_splits)
    then show ?thesis
      using Indexed stored_indexed [OF Indexed, of ns w] by simp
  next
    case (EsRejects e)
    then show ?thesis by (simp add: indexEmail_rejected say_fields)
  qed
  have a: "case ai_post env \<lparr>req_subject = or_else (mail_subject email) ''No Subject'',
                            req_body = or_else (mail_text email) ''''\<rparr> of
            AiRejects e \<Rightarrow>
              ConsoleError ''[AI Service] Categorization failed:'' (Some e)
                \<in> set (drop (length (logged w)) (logged ?w'))
          | AiData _ \<Rightarrow> True"
  proof (cases "ai_post env \<lparr>req_subject = or_else (mail_subject email) ''No Subject'',
                            req_body = or_else (mail_text email) ''''\<rparr>")
    case (AiRejects e)
    have l: "snd (prepare env email acct) =
               [ConsoleError ''[AI Service] Categorization failed:'' (Some e)]"
      using prepare_category_rejected [OF AiRejects] by simp
    show ?thesis
      by (cases "es_index env ?d")
         (simp_all add: AiRejects l indexEmail_indexed indexEmail_rejected
            notification_logged say_fields)
  next
    case (AiData c)
    then show ?thesis by simp
  qed
  from f p s a show ?thesis by (simp add: Let_def)
qed

theorem handoff_never_rejects_witness:
  "es_index store_down (fst (prepare store_down lead_mail ''acct1''))
     = EsRejects (Error ''ConnectionError'') \<and>
   indexEmail store_down both_sinks lead_mail ''acct1'' empty_sink
     = (empty_sink\<lparr>logged :=
          [ConsoleError ''[AI Service] Categorization failed:'' (Some (Error ''ECONNREFUSED'')),
           ConsoleError ''[Elasticsearch] Error indexing email:''
             (Some (Error ''ConnectionError''))]\<rparr>,
        Fulfilled) \<and>
   SlackSend ''alice@example.org'' ''Pricing''
     \<in> set (sent (fst (indexEmail slack_down both_sinks lead_mail ''acct1'' empty_sink))) \<and>
   notify slack_down (SlackSend ''alice@example.org'' ''Pricing'') = SendFails (Error ''503'') \<and>
   ConsoleError ''[Slack] Error sending notification:'' (Some (Error ''503''))
     \<in> set (logged (fst (indexEmail slack_down both_sinks lead_mail ''acct1'' empty_sink)))"
  using handoff_never_rejects [where env = store_down and email = lead_mail
      and acct = "''acct1''" and ns = both_sinks and w = empty_sink]
    handoff_never_rejects [where env = slack_down and email = lead_mail
      and acct = "''acct1''" and ns = both_sinks and w = empty_sink]
  by (simp add: sink_eval)

section \<open>Properties of the backfill date\<close>

lemma sample_days:
  "Day 1793610720000 = 20759"
  "isoDay 20758 = ''2026-11-01''"
  "isoDay 20729 = ''2026-10-03''"
  by code_simp+

lemma ready_service_value:
  "fst (run fixed_zone (fst (startSync (ImapService_new ''acct1'')))
          [EvReady, EvOpenBoxDone None 1793610720000])
   = \<lparr>accountConfig_id = ''acct1'', imap_state = authenticated, keepAliveInterval = Some 0,
      ready_once = False, mail_handlers = 1, intervals = [(0, 300000)], timeouts = [],
      next_handle = 1, crashed = False\<rparr>"
  by (simp add: startSync_def ImapService_new_def step_def onReady_def onReady_openBox_def
      listenForNewEmails_def setInterval_def clearInterval_def Let_def)

lemmas service_eval =
  step_def onReady_def onClose_def
  onError_def onReconnectTimer_def onKeepAlive_def onMail_def onMail_onSearch_def
  fetchInitialEmails_onSearch_def onParsed_def setTimeout_def clearInterval_def Let_def

lemma setDate_back_fixed_offset:
  assumes "tz (LocalTime tz t - k * msPerDay) False = tz t True"
  shows "setDate_back tz t k = t - k * msPerDay"
proof -
  define lt where "lt = LocalTime tz t"
  have "MakeDate (Day lt - k) (TimeWithinDay lt) = lt - k * msPerDay"
    by (simp add: MakeDate_def Day_def TimeWithinDay_def algebra_simps)
  then have "setDate_back tz t k = UTC tz (lt - k * msPerDay)"
    by (simp add: setDate_back_def lt_def Let_def)
  also have "\<dots> = lt - k * msPerDay - tz t True"
    using assms by (simp add: UTC_def lt_def)
  also have "\<dots> = t - k * msPerDay"
    by (simp add: lt_def LocalTime_def)
  finally show ?thesis .
qed

lemma Day_back: "Day (t - k * msPerDay) = Day t - k"
  by (simp add: Day_def msPerDay_def)

lemma step_openBox:
  "\<not> crashed svc \<Longrightarrow>
   snd (step tz svc (EvOpenBoxDone None t)) =
     [Log (ConsoleLog ''INBOX opened. Starting initial fetch...''),
      Cmd (Search [SINCE (searchDate tz t)]),
      Log (ConsoleLog ''Entering IDLE mode for real-time updates.'')]"
  by (simp add: step_def onReady_openBox_def fetchInitialEmails_def listenForNewEmails_def
      setInterval_def Let_def split: option.splits)

lemma setDate_back_one: "setDate_back tz t 1 = UTC tz (LocalTime tz t - msPerDay)"
proof -
  have "MakeDate (Day (LocalTime tz t) - 1) (TimeWithinDay (LocalTime tz t))
        = LocalTime tz t - msPerDay"
    by (simp add: MakeDate_def Day_def TimeWithinDay_def algebra_simps)
  then show ?thesis by (simp add: setDate_back_def Let_def)
qed

text \<open>
  Claim C2, as amended. When the inbox has been opened in a running service, exactly one
  search is issued. Its criterion is \<open>SINCE\<close> with the UTC calendar date of the instant
  that lies one local calendar day before now, at the same local time of day: the
  lookback is one day, where the comment in the source speaks of thirty. When the host's
  zone offset is the same at both instants, that date is the day before the current UTC
  date.
\<close>

theorem backfill_searches_one_local_day_back:
  assumes "\<not> crashed svc"
  shows "filter is_search (commands (snd (step tz svc (EvOpenBoxDone None t))))
           = [Search [SINCE (isoDate (UTC tz (LocalTime tz t - msPerDay)))]] \<and>
         Day (LocalTime tz t - msPerDay) = Day (LocalTime tz t) - 1 \<and>
         (tz (LocalTime tz t - msPerDay) False = tz t True \<longrightarrow>
            isoDate (UTC tz (LocalTime tz t - msPerDay)) = isoDay (Day t - 1))"
proof -
  have s: "searchDate tz t = isoDate (UTC tz (LocalTime tz t - msPerDay))"
    by (simp add: searchDate_def setDate_back_one)
  have l: "Day (LocalTime tz t - msPerDay) = Day (LocalTime tz t) - 1"
    using Day_back [of "LocalTime tz t" 1] by simp
  have u: "isoDate (UTC tz (LocalTime tz t - msPerDay)) = isoDay (Day t - 1)"
    if "tz (LocalTime tz t - msPerDay) False = tz t True"
  proof -
    have "setDate_back tz t 1 = t - 1 * msPerDay"
      using that by (intro setDate_back_fixed_offset) simp
    then have "UTC tz (LocalTime tz t - msPerDay) = t - 1 * msPerDay"
      by (simp add: setDate_back_one)
    then show ?thesis
      using Day_back [of t 1] by (simp add: isoDate_def)
  qed
  from s l u show ?thesis
    using assms by (simp add: step_openBox)
qed

theorem backfill_searches_one_local_day_back_witness:
  "\<not> crashed fresh_service \<and>
   fixed_zone (LocalTime fixed_zone 1793610720000 - msPerDay) False
     = fixed_zone 1793610720000 True \<and>
   filter is_search
     (commands (snd (step fixed_zone fresh_service (EvOpenBoxDone None 1793610720000))))
   = [Search [SINCE ''2026-11-01'']] \<and>
   isoDay (Day 1793610720000 - 30) = ''2026-10-03''"
  using backfill_searches_one_local_day_back [where svc = fresh_service and tz = fixed_zone
      and t = 1793610720000]
  by (simp add: fresh_service_def startSync_def ImapService_new_def fixed_zone_def sample_days)

lemma autumn_dates:
  "searchDate berlin_autumn 1792974600000 = ''2026-10-24''"
  "isoDate 1792974600000 = ''2026-10-26''"
  "isoDate (LocalTime berlin_autumn 1792974600000) = ''2026-10-26''"
  "isoDay (Day 1792974600000 - 1) = ''2026-10-25''"
  "isoDay (Day (LocalTime berlin_autumn 1792974600000) - 1) = ''2026-10-25''"
  by code_simp+

text \<open>
  Claim C2 as stated fails: on a host on central European time at 2026-10-26T00:30Z, the
  day after summer time ended, the search is \<open>SINCE 2026-10-24\<close>, while the current date
  is 2026-10-26 both in UTC and in local time, and the day before it is 2026-10-25.
\<close>

theorem backfill_date_counterexample:
  "filter is_search
     (commands (snd (step berlin_autumn fresh_service (EvOpenBoxDone None 1792974600000))))
   = [Search [SINCE ''2026-10-24'']] \<and>
   isoDate 1792974600000 = ''2026-10-26'' \<and>
   isoDay (Day 1792974600000 - 1) = ''2026-10-25'' \<and>
   isoDate (LocalTime berlin_autumn 1792974600000) = ''2026-10-26'' \<and>
   isoDay (Day (LocalTime berlin_autumn 1792974600000) - 1) = ''2026-10-25''"
proof -
  have "\<not> crashed fresh_service"
    by (simp add: fresh_service_def startSync_def ImapService_new_def)
  then show ?thesis
    by (simp add: step_openBox autumn_dates)
qed

section \<open>Properties of the fetches\<close>

lemma commands_append: "commands (xs @ ys) = commands xs @ commands ys"
  by (induction xs rule: commands.induct) simp_all

lemma run_crashed: "crashed svc \<Longrightarrow> run tz svc evs = (svc, [])"
  by (induction evs) (simp_all add: step_def)

lemma run_bodies:
  "\<not> crashed svc \<Longrightarrow>
   run tz svc (map EvBody rs) =
     (svc, concat (map (onParsed ''Error parsing email:'' (accountConfig_id svc)) rs))"
  by (induction rs) (simp_all add: step_def)

lemma run_new_bodies:
  "\<not> crashed svc \<Longrightarrow>
   run tz svc (map EvBodyNew rs) =
     (svc, concat (map (onParsed ''Error parsing new email:'' (accountConfig_id svc)) rs))"
  by (induction rs) (simp_all add: step_def)

lemma commands_parsed: "commands (concat (map (onParsed line acct) rs)) = []"
  by (induction rs) (simp_all add: commands_append onParsed_def split: parse_result.splits option.splits)

lemma handoffs_parsed:
  "handoffs (concat (map (onParsed line acct) rs)) = map (\<lambda>m. (m, acct)) (decoded rs)"
  by (induction rs rule: decoded.induct) (simp_all add: onParsed_def)

lemma errors_parsed:
  "logged_errors (concat (map (onParsed line acct) rs)) = failures rs"
  by (induction rs rule: failures.induct) (simp_all add: onParsed_def split: option.splits)

lemma decoded_append: "decoded (xs @ ys) = decoded xs @ decoded ys"
  by (induction xs rule: decoded.induct) simp_all

lemma failures_append: "failures (xs @ ys) = failures xs @ failures ys"
  by (induction xs rule: failures.induct) simp_all

text \<open>
  Claim C7. In a batch of fetched bodies in which the parser fails for one message, that
  failure is logged once, the messages before and after it that decode are all handed
  off, and the service is left as it was. This holds in the backfill and in the fetch
  after a new-mail signal.
\<close>

theorem decode_failure_skips_one_message:
  assumes "\<not> crashed svc"
  shows "fst (run tz svc (map EvBody (xs @ ParseError e # ys))) = svc \<and>
         handoffs (snd (run tz svc (map EvBody (xs @ ParseError e # ys))))
           = map (\<lambda>m. (m, accountConfig_id svc)) (decoded xs @ decoded ys) \<and>
         logged_errors (snd (run tz svc (map EvBody (xs @ ParseError e # ys))))
           = failures xs @ e # failures ys \<and>
         fst (run tz svc (map EvBodyNew (xs @ ParseError e # ys))) = svc \<and>
         handoffs (snd (run tz svc (map EvBodyNew (xs @ ParseError e # ys))))
           = map (\<lambda>m. (m, accountConfig_id svc)) (decoded xs @ decoded ys) \<and>
         logged_errors (snd (run tz svc (map EvBodyNew (xs @ ParseError e # ys))))
           = failures xs @ e # failures ys"
proof -
  let ?rs = "xs @ ParseError e # ys"
  have d: "decoded ?rs = decoded xs @ decoded ys"
    by (simp add: decoded_append)
  have f: "failures ?rs = failures xs @ e # failures ys"
    by (simp add: failures_append)
  have b: "run tz svc (map EvBody ?rs) =
             (svc, concat (map (onParsed ''Error parsing email:'' (accountConfig_id svc)) ?rs))"
    using assms by (rule run_bodies)
  have n: "run tz svc (map EvBodyNew ?rs) =
             (svc, concat (map (onParsed ''Error parsing new email:'' (accountConfig_id svc)) ?rs))"
    using assms by (rule run_new_bodies)
  show ?thesis
    unfolding b n by (simp only: fst_conv snd_conv handoffs_parsed errors_parsed d f)
qed

theorem decode_failure_skips_one_message_witness:
  "\<not> crashed ready_service \<and>
   handoffs (snd (run fixed_zone ready_service
      (map EvBody ([Parsed (Some lead_mail)]
                   @ ParseError (Error ''bad stream'') # [Parsed None, Parsed (Some bare_mail)]))))
   = [(lead_mail, ''acct1''), (bare_mail, ''acct1'')] \<and>
   logged_errors (snd (run fixed_zone ready_service
      (map EvBodyNew ([Parsed (Some lead_mail)]
                   @ ParseError (Error ''bad stream'') # [Parsed None, Parsed (Some bare_mail)]))))
   = [Error ''bad stream'']"
  using decode_failure_skips_one_message [where svc = ready_service and tz = fixed_zone
      and xs = "[Parsed (Some lead_mail)]" and e = "Error ''bad stream''"
      and ys = "[Parsed None, Parsed (Some bare_mail)]"]
  unfolding ready_service_def fresh_service_def ready_service_value
  by (simp add: service_eval)

lemma step_since_commands:
  "commands (snd (step tz svc (EvSearchSinceDone err uids))) =
     (if \<not> crashed svc \<and> err = None \<and> uids \<noteq> [] \<and> imap_state svc = authenticated
      then [Fetch uids \<lparr>bodies = '''', markSeen = None\<rparr>] else [])"
  by (simp add: step_def fetchInitialEmails_onSearch_def split: option.splits)

lemma step_unseen_commands:
  "commands (snd (step tz svc (EvSearchUnseenDone err uids))) =
     (if \<not> crashed svc \<and> err = None \<and> uids \<noteq> []
      then [Fetch uids \<lparr>bodies = '''', markSeen = Some True\<rparr>] else [])"
  by (simp add: step_def onMail_onSearch_def split: option.splits)

lemma step_search_state:
  "fst (step tz svc (EvSearchSinceDone err uids)) = svc"
  "fst (step tz svc (EvSearchUnseenDone err uids)) = svc"
  by (simp_all add: step_def)

lemma run_since_commands:
  "commands (snd (run tz svc (EvSearchSinceDone err uids # map EvBody rs))) =
     commands (snd (step tz svc (EvSearchSinceDone err uids)))"
proof (cases "crashed svc")
  case True
  then show ?thesis by (simp add: run_crashed step_def)
next
  case False
  have "fst (step tz svc (EvSearchSinceDone err uids)) = svc" by (rule step_search_state)
  then show ?thesis
    using False
    by (cases "step tz svc (EvSearchSinceDone err uids)")
       (simp add: run_bodies commands_append commands_parsed)
qed

lemma run_unseen_commands:
  "commands (snd (run tz svc (EvSearchUnseenDone err uids # map EvBodyNew rs))) =
     commands (snd (step tz svc (EvSearchUnseenDone err uids)))"
proof (cases "crashed svc")
  case True
  then show ?thesis by (simp add: run_crashed step_def)
next
  case False
  have "fst (step tz svc (EvSearchUnseenDone err uids)) = svc" by (rule step_search_state)
  then show ?thesis
    using False
    by (cases "step tz svc (EvSearchUnseenDone err uids)")
       (simp add: run_new_bodies commands_append commands_parsed)
qed

text \<open>
  Claim C4. The fetch of the backfill is issued without \<open>markSeen\<close> and leaves the read
  flags of the server as they were, whatever the search returned. The fetch after a
  new-mail signal is issued with \<open>markSeen\<close> set and flags every fetched id, whatever
  the parser answers for the bodies.
\<close>

theorem fetch_read_flags:
  "server_seen (commands (snd (run tz svc (EvSearchSinceDone err uids # map EvBody rs)))) seen
     = seen \<and>
   (\<not> crashed svc \<and> imap_state svc = authenticated \<and> uids \<noteq> [] \<longrightarrow>
      commands (snd (run tz svc (EvSearchSinceDone None uids # map EvBody rs)))
        = [Fetch uids \<lparr>bodies = '''', markSeen = None\<rparr>]) \<and>
   (\<not> crashed svc \<and> uids \<noteq> [] \<longrightarrow>
      commands (snd (run tz svc (EvSearchUnseenDone None uids # map EvBodyNew rs)))
        = [Fetch uids \<lparr>bodies = '''', markSeen = Some True\<rparr>] \<and>
      server_seen (commands (snd (run tz svc (EvSearchUnseenDone None uids # map EvBodyNew rs))))
        seen = seen \<union> set uids)"
  by (simp only: run_since_commands run_unseen_commands step_since_commands step_unseen_commands)
     simp

theorem fetch_read_flags_witness:
  "\<not> crashed ready_service \<and> imap_state ready_service = authenticated \<and>
   commands (snd (run fixed_zone ready_service
      (EvSearchSinceDone None [7, 8]
       # map EvBody [ParseError (Error ''bad stream''), Parsed (Some lead_mail)])))
   = [Fetch [7, 8] \<lparr>bodies = '''', markSeen = None\<rparr>] \<and>
   server_seen (commands (snd (run fixed_zone ready_service
      (EvSearchSinceDone None [7, 8]
       # map EvBody [ParseError (Error ''bad stream''), Parsed (Some lead_mail)])))) {1}
   = {1} \<and>
   server_seen (commands (snd (run fixed_zone ready_service
      (EvSearchUnseenDone None [7, 8]
       # map EvBodyNew [ParseError (Error ''bad stream''), Parsed (Some lead_mail)])))) {1}
   = {1, 7, 8}"
  using fetch_read_flags [where tz = fixed_zone and svc = ready_service and err = None
      and uids = "[7, 8]" and seen = "{1}"
      and rs = "[ParseError (Error ''bad stream''), Parsed (Some lead_mail)]"]
  unfolding ready_service_def fresh_service_def ready_service_value
  by (auto simp add: service_eval)

section \<open>Properties of the keep-alive timer\<close>

lemma run_Cons_fst: "fst (run tz svc (e # es)) = fst (run tz (fst (step tz svc e)) es)"
  by (simp add: case_prod_beta)

lemma run_Cons_snd:
  "snd (run tz svc (e # es)) = snd (step tz svc e) @ snd (run tz (fst (step tz svc e)) es)"
  by (simp add: case_prod_beta)

lemma timers_ok_start: "timers_ok (fst (startSync (ImapService_new a)))"
  by (simp add: timers_ok_def startSync_def ImapService_new_def)

lemma openBox_timer:
  assumes "timers_ok svc" and "\<not> crashed svc"
  shows "intervals (fst (step tz svc (EvOpenBoxDone None t))) = [(next_handle svc, 300000)]"
    and "keepAliveInterval (fst (step tz svc (EvOpenBoxDone None t))) = Some (next_handle svc)"
proof -
  have e: "filter (\<lambda>(i, p). i \<noteq> h) (intervals svc) = []" if "keepAliveInterval svc = Some h" for h
    using assms(1) that by (auto simp: timers_ok_def filter_empty_conv)
  have n: "intervals svc = []" if "keepAliveInterval svc = None"
    using assms(1) that by (cases "intervals svc") (auto simp: timers_ok_def)
  show "intervals (fst (step tz svc (EvOpenBoxDone None t))) = [(next_handle svc, 300000)]"
    using assms(2) e n
    by (cases "keepAliveInterval svc")
       (simp_all add: step_def onReady_openBox_def listenForNewEmails_def clearInterval_def
          setInterval_def Let_def)
  show "keepAliveInterval (fst (step tz svc (EvOpenBoxDone None t))) = Some (next_handle svc)"
    using assms(2)
    by (cases "keepAliveInterval svc")
       (simp_all add: step_def onReady_openBox_def listenForNewEmails_def clearInterval_def
          setInterval_def Let_def)
qed

lemma close_clears_timer:
  assumes "timers_ok svc" and "\<not> crashed svc"
  shows "intervals (fst (step tz svc EvClose)) = []"
proof (cases "keepAliveInterval svc")
  case None
  then have "intervals svc = []"
    using assms(1) by (cases "intervals svc") (auto simp: timers_ok_def)
  then show ?thesis
    using assms(2) None by (simp add: step_def onClose_def setTimeout_def Let_def)
next
  case (Some h)
  then have "filter (\<lambda>(i, p). i \<noteq> h) (intervals svc) = []"
    using assms(1) by (auto simp: timers_ok_def filter_empty_conv)
  then show ?thesis
    using assms(2) Some
    by (simp add: step_def onClose_def setTimeout_def clearInterval_def Let_def)
qed

lemma step_timers_ok:
  assumes "timers_ok svc"
  shows "timers_ok (fst (step tz svc ev))"
proof (cases "crashed svc")
  case True
  then show ?thesis using assms by (simp add: step_def)
next
  case False
  show ?thesis
  proof (cases ev)
    case (EvOpenBoxDone err t)
    show ?thesis
    proof (cases err)
      case None
      then show ?thesis
        using openBox_timer [OF assms False, of tz t] EvOpenBoxDone
        by (simp add: timers_ok_def)
    next
      case (Some e)
      then show ?thesis
        using assms False EvOpenBoxDone
        by (simp add: step_def onReady_openBox_def timers_ok_def)
    qed
  next
    case EvClose
    then show ?thesis
      using close_clears_timer [OF assms False, of tz] by (simp add: timers_ok_def)
  next
    case (EvTimeout h)
    then show ?thesis
      using assms False by (simp add: step_def onReconnectTimer_def timers_ok_def)
  qed (use assms False in \<open>simp_all add: step_def onReady_def onError_def timers_ok_def Let_def\<close>)
qed

lemma run_timers_ok: "timers_ok svc \<Longrightarrow> timers_ok (fst (run tz svc evs))"
proof (induction evs arbitrary: svc)
  case Nil
  then show ?case by simp
next
  case (Cons e evs)
  from Cons.prems have "timers_ok (fst (step tz svc e))" by (rule step_timers_ok)
  then have "timers_ok (fst (run tz (fst (step tz svc e)) evs))" by (rule Cons.IH)
  then show ?case by (simp only: run_Cons_fst)
qed

lemma step_without_timer:
  assumes "intervals svc = []" and "\<not> inbox_opened ev"
  shows "intervals (fst (step tz svc ev)) = []"
    and "Noop \<notin> set (commands (snd (step tz svc ev)))"
proof -
  have a: "Noop \<notin> set (commands (concat (replicate n (onMail svc))))" for n
    by (induction n) (simp_all add: commands_append onMail_def)
  show "intervals (fst (step tz svc ev)) = []"
    using assms
    by (cases ev rule: inbox_opened.cases)
       (simp_all add: step_def onReady_def onClose_def onError_def onReconnectTimer_def
          onReady_openBox_def setTimeout_def clearInterval_def Let_def split: option.splits)
  show "Noop \<notin> set (commands (snd (step tz svc ev)))"
    using assms a
    by (cases ev rule: inbox_opened.cases)
       (simp_all add: step_def onReady_def onClose_def onError_def onReconnectTimer_def
          onReady_openBox_def setTimeout_def clearInterval_def Let_def
          fetchInitialEmails_onSearch_def onMail_onSearch_def onParsed_def
          split: option.splits parse_result.splits)
qed

lemma run_without_timer:
  assumes "intervals svc = []" and "\<forall>e \<in> set evs. \<not> inbox_opened e"
  shows "Noop \<notin> set (commands (snd (run tz svc evs)))"
  using assms
proof (induction evs arbitrary: svc)
  case Nil
  then show ?case by simp
next
  case (Cons e evs)
  have 1: "intervals (fst (step tz svc e)) = []"
    and 2: "Noop \<notin> set (commands (snd (step tz svc e)))"
    using Cons.prems by (simp_all add: step_without_timer)
  have "Noop \<notin> set (commands (snd (run tz (fst (step tz svc e)) evs)))"
    using 1 Cons.prems(2) by (intro Cons.IH) simp_all
  with 2 show ?case by (simp only: run_Cons_snd commands_append set_append Un_iff) simp
qed

lemma tick_commands:
  "commands (snd (step tz svc (EvInterval h))) =
     (if \<not> crashed svc \<and> h \<in> fst ` set (intervals svc) \<and> imap_state svc = authenticated
      then [Noop] else [])"
  by (simp add: step_def onKeepAlive_def)

text \<open>
  The \<open>'ready'\<close> listener is a one-time listener: a second \<open>'ready'\<close> event, as after a
  reconnect, opens no inbox, so the backfill, the \<open>'mail'\<close> listener and the timer are set
  up once.
\<close>

lemma ready_listener_once:
  "commands (snd (step tz (fst (step tz svc EvReady)) EvReady)) = []"
  by (simp add: step_def onReady_def Let_def)

text \<open>
  Claim C9. In every state the service can reach after \<open>startSync\<close>: when the inbox has
  been opened, exactly one interval timer is armed, with a period of 300000 ms, and the
  service holds its handle; a tick of a timer sends \<open>NOOP\<close> when the timer is armed and the
  connection is authenticated, sends nothing otherwise, and leaves the service as it
  was; after \<open>'close'\<close> no interval timer is armed, and no \<open>NOOP\<close> is sent until the inbox
  is opened again.
\<close>

theorem keep_alive_timer:
  "let svc = fst (run tz (fst (startSync (ImapService_new acct))) history)
   in (\<not> crashed svc \<longrightarrow>
            intervals (fst (step tz svc (EvOpenBoxDone None t))) = [(next_handle svc, 300000)] \<and>
            keepAliveInterval (fst (step tz svc (EvOpenBoxDone None t))) = Some (next_handle svc))
         \<and> commands (snd (step tz svc (EvInterval h))) =
             (if \<not> crashed svc \<and> h \<in> fst ` set (intervals svc) \<and> imap_state svc = authenticated
              then [Noop] else [])
         \<and> fst (step tz svc (EvInterval h)) = svc
         \<and> (\<not> crashed svc \<longrightarrow> intervals (fst (step tz svc EvClose)) = [])
         \<and> ((\<forall>e \<in> set evs. \<not> inbox_opened e) \<longrightarrow>
              Noop \<notin> set (commands (snd (run tz (fst (step tz svc EvClose)) evs))))"
proof -
  define svc where "svc = fst (run tz (fst (startSync (ImapService_new acct))) history)"
  have ok: "timers_ok svc"
    unfolding svc_def by (intro run_timers_ok timers_ok_start)
  have after: "Noop \<notin> set (commands (snd (run tz (fst (step tz svc EvClose)) evs)))"
    if "\<forall>e \<in> set evs. \<not> inbox_opened e"
  proof (cases "crashed svc")
    case True
    then show ?thesis by (simp add: step_def run_crashed)
  next
    case False
    then have "intervals (fst (step tz svc EvClose)) = []"
      using ok by (intro close_clears_timer)
    then show ?thesis using that by (rule run_without_timer)
  qed
  have same: "fst (step tz svc (EvInterval h)) = svc"
    by (simp add: step_def)
  have "(\<not> crashed svc \<longrightarrow>
            intervals (fst (step tz svc (EvOpenBoxDone None t))) = [(next_handle svc, 300000)] \<and>
            keepAliveInterval (fst (step tz svc (EvOpenBoxDone None t))) = Some (next_handle svc))
         \<and> commands (snd (step tz svc (EvInterval h))) =
             (if \<not> crashed svc \<and> h \<in> fst ` set (intervals svc) \<and> imap_state svc = authenticated
              then [Noop] else [])
         \<and> fst (step tz svc (EvInterval h)) = svc
         \<and> (\<not> crashed svc \<longrightarrow> intervals (fst (step tz svc EvClose)) = [])
         \<and> ((\<forall>e \<in> set evs. \<not> inbox_opened e) \<longrightarrow>
              Noop \<notin> set (commands (snd (run tz (fst (step tz svc EvClose)) evs))))"
    using openBox_timer [OF ok, of tz t] close_clears_timer [OF ok, of tz] after same
    by (simp add: tick_commands)
  then show ?thesis by (simp add: svc_def Let_def)
qed

theorem keep_alive_timer_witness:
  "\<not> crashed ready_service \<and>
   intervals ready_service = [(0, 300000)] \<and>
   commands (snd (step fixed_zone ready_service (EvInterval 0))) = [Noop] \<and>
   intervals (fst (step fixed_zone ready_service EvClose)) = [] \<and>
   list_all (\<lambda>e. \<not> inbox_opened e) [EvInterval 0, EvTimeout 1, EvReady, EvInterval 0] \<and>
   Noop \<notin> set (commands (snd (run fixed_zone (fst (step fixed_zone ready_service EvClose))
                           [EvInterval 0, EvTimeout 1, EvReady, EvInterval 0])))"
  using keep_alive_timer [where tz = fixed_zone and acct = "''acct1''"
      and history = "[EvReady, EvOpenBoxDone None 1793610720000]" and t = 1793610720000
      and h = 0 and evs = "[EvInterval 0, EvTimeout 1, EvReady, EvInterval 0]"]
  unfolding ready_service_def fresh_service_def ready_service_value
  by (simp add: service_eval)

section \<open>Properties of the startup\<close>

text \<open>
  Claim C3 as stated fails: with an unparseable \<open>IMAP_ACCOUNTS\<close> the process does not exit
  and the API server listens.
\<close>

theorem malformed_accounts_counterexample:
  "exit_code (startApp sample_parse malformed_env) = None \<and>
   listening (startApp sample_parse malformed_env)"
  by (simp add: startApp_def sample_parse_def malformed_env_def truthy_def)

text \<open>
  Claim C3, as amended. \<open>IMAP_ACCOUNTS\<close> is set but does not parse to an array of
  accounts. When the store has been initialised, the failure is logged, no account is
  synchronized, the process does not exit and the API server is started. When the
  initialisation of the store fails, the process exits with code 1 and the API server is
  not started, as it does for any accounts input.
\<close>

theorem malformed_accounts_disable_sync:
  assumes "truthy (IMAP_ACCOUNTS env)"
    and "\<not> is_array (JSON_parse (the (IMAP_ACCOUNTS env)))"
  shows "case es_initialize env of
           None \<Rightarrow>
             exit_code (startApp JSON_parse env) = None \<and>
             listening (startApp JSON_parse env) \<and>
             services (startApp JSON_parse env) = [] \<and>
             (\<exists>err. ConsoleError ''Failed to parse IMAP_ACCOUNTS.'' err
                      \<in> set (console (startApp JSON_parse env)))
         | Some e \<Rightarrow>
             exit_code (startApp JSON_parse env) = Some 1 \<and>
             \<not> listening (startApp JSON_parse env) \<and>
             services (startApp JSON_parse env) = []"
proof (cases "es_initialize env")
  case None
  then show ?thesis
    using assms
    by (cases "JSON_parse (the (IMAP_ACCOUNTS env))") (simp_all add: startApp_def)
next
  case (Some e)
  then show ?thesis by (simp add: startApp_def)
qed

theorem malformed_accounts_disable_sync_witness:
  "truthy (IMAP_ACCOUNTS malformed_env) \<and>
   \<not> is_array (sample_parse (the (IMAP_ACCOUNTS malformed_env))) \<and>
   es_initialize malformed_env = None \<and>
   exit_code (startApp sample_parse malformed_env) = None \<and>
   listening (startApp sample_parse malformed_env) \<and>
   services (startApp sample_parse malformed_env) = [] \<and>
   ConsoleError ''Failed to parse IMAP_ACCOUNTS.'' (Some (Error ''SyntaxError''))
     \<in> set (console (startApp sample_parse malformed_env)) \<and>
   truthy (IMAP_ACCOUNTS store_down_env) \<and>
   \<not> is_array (sample_parse (the (IMAP_ACCOUNTS store_down_env))) \<and>
   es_initialize store_down_env = Some (Error ''ConnectionError'') \<and>
   exit_code (startApp sample_parse store_down_env) = Some 1 \<and>
   \<not> listening (startApp sample_parse store_down_env)"
  using malformed_accounts_disable_sync [where env = malformed_env and JSON_parse = sample_parse]
    malformed_accounts_disable_sync [where env = store_down_env and JSON_parse = sample_parse]
  by (simp add: startApp_def sample_parse_def malformed_env_def store_down_env_def truthy_def)

text \<open>
  An array is not malformed input in this sense, but the loop over it can still fail:
  with a \<open>null\<close> element the accounts before it are started, the failure is logged under
  the same line and the accounts after it are not started.
\<close>

lemma array_with_null_starts_prefix:
  assumes "es_initialize env = None"
    and "truthy (IMAP_ACCOUNTS env)"
    and "JSON_parse (the (IMAP_ACCOUNTS env)) = JsonArray [Some a, None, Some b]"
  shows "services (startApp JSON_parse env) = [fst (startSync (ImapService_new a))] \<and>
         ConsoleError ''Failed to parse IMAP_ACCOUNTS.'' (Some (Error ''TypeError''))
           \<in> set (console (startApp JSON_parse env)) \<and>
         listening (startApp JSON_parse env)"
  using assms by (simp add: startApp_def)

end
